theory Spec2Isabelle
  imports Complex_Main
begin

section \<open>Python values and exceptions\<close>

text \<open>
  The repository is Python. Every exception the modelled code can raise is a value of
  \<open>error\<close>; a function that may raise returns \<open>error + 'a\<close>, with \<open>Inl\<close> for the
  exception. \<open>ExternalError\<close> stands for an exception raised inside a collaborator
  that is not part of the modelled files (an encoder, the dataset, OpenCV).
\<close>

datatype error =
    ValueError
  | IndexError
  | KeyError
  | AttributeError
  | TypeError
  | StatisticsError
  | AssertionError
  | ExternalError string


text \<open>\<^verbatim>\<open>del xs[start:]\<close> for \<open>start \<ge> 0\<close>: a slice deletion never raises.\<close>

definition del_from :: "nat \<Rightarrow> 'a list \<Rightarrow> 'a list" where
  "del_from start xs = take start xs"

text \<open>\<^verbatim>\<open>del xs[0]\<close>: \<open>IndexError\<close> on the empty list.\<close>

definition del_first :: "'a list \<Rightarrow> error + 'a list" where
  "del_first xs = (case xs of [] \<Rightarrow> Inl IndexError | _ # rest \<Rightarrow> Inr rest)"

text \<open>
  \<^verbatim>\<open>xs[i]\<close> on a Python list of length \<open>n\<close>: positions \<open>0 .. n - 1\<close> read from the
  front, positions \<open>-n .. -1\<close> read from the back, every other position raises
  \<open>IndexError\<close>.
\<close>

definition getitem :: "'a list \<Rightarrow> int \<Rightarrow> error + 'a" where
  "getitem xs i =
     (if 0 \<le> i \<and> i < int (length xs) then Inr (xs ! nat i)
      else if i < 0 \<and> - int (length xs) \<le> i then Inr (xs ! nat (int (length xs) + i))
      else Inl IndexError)"

text \<open>\<^verbatim>\<open>np.arange(n)\<close> for an integer \<open>n\<close>: \<open>0, 1, ..., n - 1\<close>, empty when \<open>n \<le> 0\<close>.\<close>

definition np_arange :: "int \<Rightarrow> int list" where
  "np_arange n = map int [0 ..< nat n]"

section \<open>visualize\_utils\<close>

subsection \<open>gen\_coloc\_maps\<close>

text \<open>
  An encoder object as \<^verbatim>\<open>gen_coloc_maps\<close> uses it: it is called on a batch
  (\<open>forward\<close>; the output tensor is the list of its slices along dimension 0) and its
  attribute \<^verbatim>\<open>size\<close> is looked up (\<open>size_attr\<close>, \<open>None\<close> when the object has no such
  attribute, as for a \<^verbatim>\<open>torch.nn.Module\<close>, which \<^verbatim>\<open>get_models\<close> returns).
\<close>

record ('x, 'y) module =
  forward :: "'x \<Rightarrow> error + 'y list"
  size_attr :: "(int \<Rightarrow> error + int) option"

text \<open>
  The loop of \<^verbatim>\<open>gen_coloc_maps\<close> over \<^verbatim>\<open>np.arange(batch_size)\<close>. \<^verbatim>\<open>matchmap_generate\<close>
  (module \<^verbatim>\<open>steps.utils\<close>) is a parameter; \<^verbatim>\<open>coloc.detach().numpy()\<close> changes the
  representation of its result only.
\<close>

fun coloc_loop ::
  "('y \<Rightarrow> 'z \<Rightarrow> error + 'm) \<Rightarrow> 'y list \<Rightarrow> 'z list \<Rightarrow> int list \<Rightarrow> error + 'm list" where
  "coloc_loop matchmap_generate image_op caption_op [] = Inr []"
| "coloc_loop matchmap_generate image_op caption_op (i # rest) =
     (case getitem image_op i of
        Inl e \<Rightarrow> Inl e
      | Inr im \<Rightarrow>
          (case getitem caption_op i of
             Inl e \<Rightarrow> Inl e
           | Inr cp \<Rightarrow>
               (case matchmap_generate im cp of
                  Inl e \<Rightarrow> Inl e
                | Inr mm \<Rightarrow>
                    (case coloc_loop matchmap_generate image_op caption_op rest of
                       Inl e \<Rightarrow> Inl e
                     | Inr coloc_maps \<Rightarrow> Inr (mm # coloc_maps)))))"

text \<open>
  \<^verbatim>\<open>gen_coloc_maps\<close>. The batch size is read from \<^verbatim>\<open>image_model.size(0)\<close>, the
  model object, as the source has it.
\<close>

definition gen_coloc_maps ::
  "('y \<Rightarrow> 'z \<Rightarrow> error + 'm) \<Rightarrow> ('x, 'y) module \<Rightarrow> ('w, 'z) module \<Rightarrow> 'x \<Rightarrow> 'w
     \<Rightarrow> error + 'm list" where
  "gen_coloc_maps matchmap_generate image_model caption_model image_tensor caption_glove =
     (case forward image_model image_tensor of
        Inl e \<Rightarrow> Inl e
      | Inr image_op \<Rightarrow>
          (case forward caption_model caption_glove of
             Inl e \<Rightarrow> Inl e
           | Inr caption_op \<Rightarrow>
               (case size_attr image_model of
                  None \<Rightarrow> Inl AttributeError
                | Some size_method \<Rightarrow>
                    (case size_method 0 of
                       Inl e \<Rightarrow> Inl e
                     | Inr batch_size \<Rightarrow>
                         coloc_loop matchmap_generate image_op caption_op
                           (np_arange batch_size)))))"

subsection \<open>Elements and coloc\_map\_processor\<close>

text \<open>
  \<^verbatim>\<open>fetch_data\<close> builds a dictionary with the keys \<open>coloc_map\<close>, \<open>image\<close>,
  \<open>caption\<close> and \<open>name\<close>. The processors replace the values under the first three
  keys by values of other types, so the record is polymorphic in them. A
  co-localization map is a Python list of frames, one per token position (the "list of
  numpy matrices" of the docstring of \<^verbatim>\<open>coloc_map_processor\<close>): the processors
  delete from it with \<^verbatim>\<open>del\<close>, which a list supports.
\<close>

record ('m, 'i, 'c) element =
  coloc_map :: 'm
  image :: 'i
  caption :: 'c
  name :: string

text \<open>
  \<^verbatim>\<open>coloc_map_processor\<close>: every frame goes through \<^verbatim>\<open>cv2.resize(frame, dsize=(224, 224))\<close>,
  then \<^verbatim>\<open>np.stack\<close> joins the masks. OpenCV is a parameter (\<open>cv2_resize\<close>, which may
  raise); \<^verbatim>\<open>np.stack\<close> raises \<open>ValueError\<close> on an empty list. All masks have the
  shape 224 x 224, so the stack is the list of masks in order.
\<close>

fun resize_frames :: "('f \<Rightarrow> error + 'r) \<Rightarrow> 'f list \<Rightarrow> error + 'r list" where
  "resize_frames cv2_resize [] = Inr []"
| "resize_frames cv2_resize (frame # frames) =
     (case cv2_resize frame of
        Inl e \<Rightarrow> Inl e
      | Inr resized \<Rightarrow>
          (case resize_frames cv2_resize frames of
             Inl e \<Rightarrow> Inl e
           | Inr masks \<Rightarrow> Inr (resized # masks)))"

definition np_stack :: "'r list \<Rightarrow> error + 'r list" where
  "np_stack mask_list = (if mask_list = [] then Inl ValueError else Inr mask_list)"

definition coloc_map_processor :: "('f \<Rightarrow> error + 'r) \<Rightarrow> 'f list \<Rightarrow> error + 'r list" where
  "coloc_map_processor cv2_resize cmap =
     (case resize_frames cv2_resize cmap of
        Inl e \<Rightarrow> Inl e
      | Inr mask_list \<Rightarrow> np_stack mask_list)"

subsection \<open>caption\_parser\<close>

text \<open>
  A co-localization frame is a two-dimensional array, here the list of its rows; numpy's
  floating-point cells are real numbers. \<open>frame_shape\<close> is the profile of row lengths.
  The value of \<^verbatim>\<open>np.array(frames).mean(axis=0)\<close> is a grid, or the scalar \<open>NaN\<close>
  that numpy returns (with a warning, without raising) for an empty list of frames.
\<close>

type_synonym matrix = "real list list"

datatype ndarray = NaN | Grid matrix

definition frame_shape :: "matrix \<Rightarrow> nat list" where
  "frame_shape m = map length m"

definition add_frames :: "matrix \<Rightarrow> matrix \<Rightarrow> matrix" where
  "add_frames a b = map2 (map2 (+)) a b"

text \<open>
  \<^verbatim>\<open>np.array(new_coloc_map).mean(axis=0)\<close>: the frames are summed along axis 0 from the
  left and every cell of the sum is divided by the number of frames. Frames of different
  shapes do not form an array (\<open>ValueError\<close>).
\<close>

definition np_mean_axis0 :: "matrix list \<Rightarrow> error + ndarray" where
  "np_mean_axis0 frames =
     (case frames of
        [] \<Rightarrow> Inr NaN
      | f # fs \<Rightarrow>
          if list_all (\<lambda>g. frame_shape g = frame_shape f) fs
          then Inr (Grid (map (map (\<lambda>x. x / real (length frames))) (foldl add_frames f fs)))
          else Inl ValueError)"

text \<open>The inner loop of \<^verbatim>\<open>caption_parser\<close>, over the positions of one group.\<close>

fun collect_phrase :: "'t list \<Rightarrow> 'f list \<Rightarrow> int list \<Rightarrow> error + ('t list \<times> 'f list)" where
  "collect_phrase tok_caption coloc_maps [] = Inr ([], [])"
| "collect_phrase tok_caption coloc_maps (index # rest) =
     (case getitem tok_caption index of
        Inl e \<Rightarrow> Inl e
      | Inr w \<Rightarrow>
          (case getitem coloc_maps index of
             Inl e \<Rightarrow> Inl e
           | Inr m \<Rightarrow>
               (case collect_phrase tok_caption coloc_maps rest of
                  Inl e \<Rightarrow> Inl e
                | Inr (new_word_token, new_coloc_map) \<Rightarrow>
                    Inr (w # new_word_token, m # new_coloc_map))))"

text \<open>\<^verbatim>\<open>caption_parser\<close>: the outer loop over \<^verbatim>\<open>index_list\<close>.\<close>

fun caption_parser ::
  "'t list \<Rightarrow> matrix list \<Rightarrow> int list list \<Rightarrow> error + ('t list list \<times> ndarray list)" where
  "caption_parser tok_caption coloc_maps [] = Inr ([], [])"
| "caption_parser tok_caption coloc_maps (position # rest) =
     (case collect_phrase tok_caption coloc_maps position of
        Inl e \<Rightarrow> Inl e
      | Inr (new_word_token, new_coloc_map) \<Rightarrow>
          (case np_mean_axis0 new_coloc_map of
             Inl e \<Rightarrow> Inl e
           | Inr new_map \<Rightarrow>
               (case caption_parser tok_caption coloc_maps rest of
                  Inl e \<Rightarrow> Inl e
                | Inr (parsed_caption, parsed_coloc_maps) \<Rightarrow>
                    Inr (new_word_token # parsed_caption, new_map # parsed_coloc_maps))))"

subsection \<open>flickr\_element\_processor\<close>

text \<open>
  One entry of the caption data that \<^verbatim>\<open>flickr_element_processor\<close> receives: the
  phrase groups, the caption parsed into phrases (each a list of tokens) and the
  tokenized sentence, both without sentinels.
\<close>

record caption_data =
  caption_index :: "int list list"
  parsed_caption :: "string list list"
  tok_sent :: "string list"

text \<open>
  The clipping statements of \<^verbatim>\<open>flickr_element_processor\<close>:
  \<^verbatim>\<open>del coloc_map[(actual_length+1):]\<close>, then \<^verbatim>\<open>del coloc_map[0]\<close>. No sentinel is
  searched for: the cut is at the length of the annotation's caption.
\<close>

definition flickr_clip :: "nat \<Rightarrow> 'f list \<Rightarrow> error + 'f list" where
  "flickr_clip actual_length cmap = del_first (del_from (actual_length + 1) cmap)"

text \<open>
  \<^verbatim>\<open>flickr_element_processor\<close>. The element's caption is the annotation identifier,
  \<open>data\<close> the dictionary from identifiers to caption data (\<open>KeyError\<close> when absent).
\<close>

definition flickr_element_processor ::
  "(ndarray \<Rightarrow> error + 'r) \<Rightarrow> ('i \<Rightarrow> error + 'j) \<Rightarrow> (matrix list, 'i, 'k) element \<Rightarrow> string
     \<Rightarrow> ('k \<rightharpoonup> caption_data) \<Rightarrow> error + ('r list, 'j, string list list) element" where
  "flickr_element_processor cv2_resize tensor2img el parse_mode data =
     (case data (caption el) of
        None \<Rightarrow> Inl KeyError
      | Some cdata \<Rightarrow>
          (let index_list = caption_index cdata;
               actual_length =
                 (if parse_mode = ''phrase'' then length (parsed_caption cdata)
                  else length (tok_sent cdata))
           in case flickr_clip actual_length (coloc_map el) of
                Inl e \<Rightarrow> Inl e
              | Inr cmap \<Rightarrow>
                  (case (if parse_mode \<noteq> ''phrase''
                         then caption_parser (tok_sent cdata) cmap index_list
                         else Inr (parsed_caption cdata, map Grid cmap)) of
                     Inl e \<Rightarrow> Inl e
                   | Inr (cap, cmap') \<Rightarrow>
                       (case coloc_map_processor cv2_resize cmap' of
                          Inl e \<Rightarrow> Inl e
                        | Inr masks \<Rightarrow>
                            (case tensor2img (image el) of
                               Inl e \<Rightarrow> Inl e
                             | Inr img \<Rightarrow>
                                 Inr \<lparr>coloc_map = masks, image = img, caption = cap,
                                      name = name el\<rparr>)))))"

subsection \<open>coco\_element\_processor\<close>



subsection \<open>seg\_viz\<close>

text \<open>
  \<^verbatim>\<open>np.mean(mask)\<close>: the sum of all cells over their number. The binarization of
  \<^verbatim>\<open>seg_viz\<close>, \<^verbatim>\<open>np.where((mask < thresh * np.mean(mask)), 0, 1).astype('uint8')\<close>.
\<close>

definition np_mean :: "matrix \<Rightarrow> real" where
  "np_mean m = sum_list (concat m) / real (length (concat m))"

definition binarize :: "real \<Rightarrow> matrix \<Rightarrow> nat list list" where
  "binarize thresh m = map (map (\<lambda>v. if v < thresh * np_mean m then 0 else 1)) m"

text \<open>
  The loop header of \<^verbatim>\<open>seg_viz\<close> is \<^verbatim>\<open>for id in range(len(mask_list)) + 1\<close>. Python
  defines no addition between a \<^verbatim>\<open>range\<close> object (a list in Python 2) and an
  integer: the expression raises \<open>TypeError\<close> for every operand.
\<close>

definition range_plus_int :: "nat \<Rightarrow> int \<Rightarrow> error + int list" where
  "range_plus_int n k = Inl TypeError"

text \<open>
  The body of the loop, for the positions it would visit: the phrase, the resized mask and
  the binarized mask times the colour image (\<open>apply_mask\<close>, a parameter; the product is
  computed and not drawn). A panel is the title and the mask that \<^verbatim>\<open>plt.imshow\<close> draws.
\<close>

fun seg_viz_loop ::
  "(matrix \<Rightarrow> error + matrix) \<Rightarrow> ('i \<Rightarrow> nat list list \<Rightarrow> error + 'i) \<Rightarrow> matrix list \<Rightarrow> 'c list
     \<Rightarrow> 'i \<Rightarrow> real \<Rightarrow> int list \<Rightarrow> error + ('c \<times> matrix) list" where
  "seg_viz_loop cv2_resize apply_mask mask_list cap color_img thresh [] = Inr []"
| "seg_viz_loop cv2_resize apply_mask mask_list cap color_img thresh (idx # rest) =
     (case getitem cap idx of
        Inl e \<Rightarrow> Inl e
      | Inr cap_phrase \<Rightarrow>
          (case getitem mask_list idx of
             Inl e \<Rightarrow> Inl e
           | Inr frame \<Rightarrow>
               (case cv2_resize frame of
                  Inl e \<Rightarrow> Inl e
                | Inr resized \<Rightarrow>
                    (case apply_mask color_img (binarize thresh resized) of
                       Inl e \<Rightarrow> Inl e
                     | Inr img \<Rightarrow>
                         (case seg_viz_loop cv2_resize apply_mask mask_list cap color_img
                                 thresh rest of
                            Inl e \<Rightarrow> Inl e
                          | Inr panels \<Rightarrow> Inr ((cap_phrase, resized) # panels))))))"

text \<open>\<^verbatim>\<open>seg_viz\<close>: the panels of the figure; saving the figure is not modelled.\<close>

definition seg_viz ::
  "(matrix \<Rightarrow> error + matrix) \<Rightarrow> ('i \<Rightarrow> nat list list \<Rightarrow> error + 'i) \<Rightarrow> matrix list \<Rightarrow> 'c list
     \<Rightarrow> 'i \<Rightarrow> real \<Rightarrow> error + ('c \<times> matrix) list" where
  "seg_viz cv2_resize apply_mask mask_list cap color_img thresh =
     (case range_plus_int (length mask_list) 1 of
        Inl e \<Rightarrow> Inl e
      | Inr ids \<Rightarrow> seg_viz_loop cv2_resize apply_mask mask_list cap color_img thresh ids)"

section \<open>get\_loader\<close>

text \<open>
  \<^verbatim>\<open>os.path.join\<close> (POSIX): a component that starts with a slash restarts the path,
  otherwise it is appended, after a slash unless the path is empty or ends with one.
\<close>

definition join2 :: "string \<Rightarrow> string \<Rightarrow> string" where
  "join2 path b =
     (if b \<noteq> [] \<and> hd b = CHR ''/'' then b
      else if path = [] \<or> last path = CHR ''/'' then path @ b
      else path @ ''/'' @ b)"

definition os_path_join :: "string \<Rightarrow> string list \<Rightarrow> string" where
  "os_path_join a p = foldl join2 a p"

text \<open>
  The keyword arguments of the calls \<^verbatim>\<open>COCODataset(...)\<close> and \<^verbatim>\<open>VisualGenome(...)\<close>
  (the same keywords) and of \<^verbatim>\<open>FlickrDataset(...)\<close>. The three classes are not among
  the modelled files: each constructor is a parameter of its loader function, from the
  keyword arguments to the dataset object, and may raise.
\<close>

record 'tr dataset_kwargs =
  kw_transform :: 'tr
  kw_mode :: string
  kw_batch_size :: int
  kw_annotations_file :: string
  kw_vocab_glove_file :: string
  kw_img_folder :: string
  kw_start_word :: string
  kw_end_word :: string
  kw_unk_word :: string
  kw_pad_caption :: bool
  kw_pad_limit :: int

record 'tr flickr_kwargs =
  fk_transform :: 'tr
  fk_mode :: string
  fk_batch_size :: int
  fk_sentences_file :: string
  fk_sentences_root :: string
  fk_annotations_root :: string
  fk_image_root :: string
  fk_vocab_glove_file :: string
  fk_parse_mode :: string
  fk_pad_caption :: bool
  fk_start_word :: string
  fk_end_word :: string
  fk_unk_word :: string
  fk_pad_limit :: int

text \<open>
  What a loader function reads of the dataset object: the attributes \<^verbatim>\<open>pad_caption\<close>
  and \<^verbatim>\<open>batch_size\<close> and the result of the call \<^verbatim>\<open>get_indices()\<close> (a random
  choice of the dataset: the value it returns at this call).
\<close>

record 'p dataset_obj =
  ds_pad_caption :: bool
  ds_batch_size :: int
  ds_get_indices :: "error + int list"
  ds_contents :: 'p

text \<open>
  \<^verbatim>\<open>torch.utils.data\<close>: the calls are recorded with the arguments the source passes;
  \<open>None\<close> is a keyword the call leaves out. A loader with a batch sampler takes its
  batches from it; without one, \<^verbatim>\<open>DataLoader\<close> batches by its own \<^verbatim>\<open>batch_size\<close> and
  \<^verbatim>\<open>drop_last\<close>, whose default in \<^verbatim>\<open>torch\<close> is \<^verbatim>\<open>False\<close>.
\<close>

datatype sampler = SubsetRandomSampler "int list"

record batch_sampler =
  bs_sampler :: sampler
  bs_batch_size :: int
  bs_drop_last :: bool

record 'd data_loader =
  dl_dataset :: 'd
  dl_num_workers :: int
  dl_batch_sampler :: "batch_sampler option"
  dl_batch_size :: "int option"
  dl_shuffle :: "bool option"
  dl_drop_last :: "bool option"

definition drops_last :: "'d data_loader \<Rightarrow> bool" where
  "drops_last dl =
     (case dl_batch_sampler dl of
        Some bs \<Rightarrow> bs_drop_last bs
      | None \<Rightarrow> (case dl_drop_last dl of Some b \<Rightarrow> b | None \<Rightarrow> False))"

text \<open>
  The last statement of the three loader functions, the same in each: the bucketed path
  under \<^verbatim>\<open>if dataset.pad_caption\<close>, the shuffled path otherwise.
\<close>

definition make_loader :: "'p dataset_obj \<Rightarrow> int \<Rightarrow> error + 'p dataset_obj data_loader" where
  "make_loader ds num_workers =
     (if ds_pad_caption ds then
        (case ds_get_indices ds of
           Inl e \<Rightarrow> Inl e
         | Inr indices \<Rightarrow>
             Inr \<lparr>dl_dataset = ds, dl_num_workers = num_workers,
                  dl_batch_sampler =
                    Some \<lparr>bs_sampler = SubsetRandomSampler indices,
                          bs_batch_size = ds_batch_size ds, bs_drop_last = False\<rparr>,
                  dl_batch_size = None, dl_shuffle = None, dl_drop_last = None\<rparr>)
      else
        Inr \<lparr>dl_dataset = ds, dl_num_workers = num_workers, dl_batch_sampler = None,
             dl_batch_size = Some (ds_batch_size ds), dl_shuffle = Some True,
             dl_drop_last = None\<rparr>)"

definition valid_mode :: "string \<Rightarrow> bool" where
  "valid_mode mode \<longleftrightarrow> mode = ''train'' \<or> mode = ''val'' \<or> mode = ''test''"

text \<open>
  \<^verbatim>\<open>get_loader_coco\<close>. The constructor receives \<^verbatim>\<open>pad_caption=True\<close> and
  \<^verbatim>\<open>pad_limit=20\<close> whatever the caller passes; \<^verbatim>\<open>test_size\<close> is not used.
\<close>

definition coco_img_folder :: "string \<Rightarrow> string \<Rightarrow> string" where
  "coco_img_folder cocoapi_loc mode =
     (if mode = ''test'' then os_path_join cocoapi_loc [''data/mscoco/images/test2014/'']
      else if mode = ''val'' then os_path_join cocoapi_loc [''data/mscoco/images/val2014/'']
      else os_path_join cocoapi_loc [''data/mscoco/images/train2014/''])"

definition coco_annotations_file :: "string \<Rightarrow> string \<Rightarrow> string" where
  "coco_annotations_file cocoapi_loc mode =
     (if mode = ''test''
      then os_path_join cocoapi_loc [''data/mscoco/annotations/image_info_test2014.json'']
      else if mode = ''val''
      then os_path_join cocoapi_loc [''data/mscoco/annotations/captions_val2014.json'']
      else os_path_join cocoapi_loc [''data/mscoco/annotations/captions_train2014.json''])"

definition get_loader_coco ::
  "('tr dataset_kwargs \<Rightarrow> error + 'p dataset_obj) \<Rightarrow> 'tr \<Rightarrow> string \<Rightarrow> int \<Rightarrow> string \<Rightarrow> string
     \<Rightarrow> string \<Rightarrow> int \<Rightarrow> string \<Rightarrow> string \<Rightarrow> int \<Rightarrow> bool
     \<Rightarrow> error + 'p dataset_obj data_loader" where
  "get_loader_coco COCODataset transform mode batch_size start_word end_word unk_word
       num_workers cocoapi_loc vocab_glove_file test_size pad_caption =
     (if \<not> valid_mode mode then Inl AssertionError
      else if mode = ''test'' \<and> batch_size \<noteq> 1 then Inl AssertionError
      else
        (case COCODataset
                \<lparr>kw_transform = transform, kw_mode = mode, kw_batch_size = batch_size,
                 kw_annotations_file = coco_annotations_file cocoapi_loc mode,
                 kw_vocab_glove_file = vocab_glove_file,
                 kw_img_folder = coco_img_folder cocoapi_loc mode,
                 kw_start_word = start_word, kw_end_word = end_word, kw_unk_word = unk_word,
                 kw_pad_caption = True, kw_pad_limit = 20\<rparr> of
           Inl e \<Rightarrow> Inl e
         | Inr ds \<Rightarrow> make_loader ds num_workers))"

text \<open>
  \<^verbatim>\<open>get_loader_flickr\<close>. The roots are joined with \<^verbatim>\<open>flickr_loc\<close> first and the
  folders join \<^verbatim>\<open>flickr_loc\<close> with the root and the mode again, as the source does.
\<close>

definition get_loader_flickr ::
  "('tr flickr_kwargs \<Rightarrow> error + 'p dataset_obj) \<Rightarrow> 'tr \<Rightarrow> string \<Rightarrow> int \<Rightarrow> string \<Rightarrow> string
     \<Rightarrow> string \<Rightarrow> int \<Rightarrow> string \<Rightarrow> string \<Rightarrow> bool \<Rightarrow> int \<Rightarrow> string
     \<Rightarrow> error + 'p dataset_obj data_loader" where
  "get_loader_flickr FlickrDataset transform mode batch_size start_word end_word unk_word
       num_workers flickr_loc vocab_glove_file pad_caption pad_limit parse_mode =
     (let image_root =
            os_path_join flickr_loc [''data'', ''flickr_30kentities'', ''flickr30k-images''];
          sentences_root =
            os_path_join flickr_loc
              [''data'', ''flickr_30kentities'', ''annotations_flickr'', ''Sentences''];
          annotations_root =
            os_path_join flickr_loc
              [''data'', ''flickr_30kentities'', ''annotations_flickr'', ''Annotations'']
      in if \<not> valid_mode mode then Inl AssertionError
         else
           (let img_folder = os_path_join flickr_loc [image_root, mode];
                annotations_folder = os_path_join flickr_loc [annotations_root, mode];
                sentences_folder = os_path_join flickr_loc [sentences_root, mode];
                sentences_file = os_path_join sentences_folder [''data.json'']
            in case FlickrDataset
                      \<lparr>fk_transform = transform, fk_mode = mode, fk_batch_size = batch_size,
                       fk_sentences_file = sentences_file,
                       fk_sentences_root = sentences_folder,
                       fk_annotations_root = annotations_folder,
                       fk_image_root = img_folder,
                       fk_vocab_glove_file = vocab_glove_file,
                       fk_parse_mode = parse_mode, fk_pad_caption = pad_caption,
                       fk_start_word = start_word, fk_end_word = end_word,
                       fk_unk_word = unk_word, fk_pad_limit = pad_limit\<rparr> of
                 Inl e \<Rightarrow> Inl e
               | Inr ds \<Rightarrow> make_loader ds num_workers))"

text \<open>
  \<^verbatim>\<open>get_loader_genome\<close>. \<open>genome_kwargs\<close> is the argument list of the call
  \<^verbatim>\<open>VisualGenome(...)\<close>: the local \<^verbatim>\<open>vocab_glove_file\<close> is assigned from
  \<^verbatim>\<open>genome_loc\<close> before the call, and the mode passed is the literal \<^verbatim>\<open>'train'\<close>.
\<close>

definition genome_kwargs ::
  "'tr \<Rightarrow> string \<Rightarrow> int \<Rightarrow> string \<Rightarrow> string \<Rightarrow> string \<Rightarrow> string \<Rightarrow> string \<Rightarrow> bool \<Rightarrow> int
     \<Rightarrow> 'tr dataset_kwargs" where
  "genome_kwargs transform mode batch_size start_word end_word unk_word genome_loc
       vocab_glove_file pad_caption pad_limit =
     (let image_root = os_path_join genome_loc [''data'', ''visual_genome'', ''images''];
          annotations_file =
            os_path_join genome_loc [''data'', ''visual_genome'', ''coco_phrase_data.json''];
          vocab_glove_file' =
            os_path_join genome_loc [''data'', ''visual_genome'', ''vocab_glove.json'']
      in \<lparr>kw_transform = transform, kw_mode = ''train'', kw_batch_size = batch_size,
          kw_annotations_file = annotations_file, kw_vocab_glove_file = vocab_glove_file',
          kw_img_folder = image_root, kw_start_word = start_word, kw_end_word = end_word,
          kw_unk_word = unk_word, kw_pad_caption = pad_caption, kw_pad_limit = pad_limit\<rparr>)"

definition get_loader_genome ::
  "('tr dataset_kwargs \<Rightarrow> error + 'p dataset_obj) \<Rightarrow> 'tr \<Rightarrow> string \<Rightarrow> int \<Rightarrow> string \<Rightarrow> string
     \<Rightarrow> string \<Rightarrow> int \<Rightarrow> string \<Rightarrow> string \<Rightarrow> bool \<Rightarrow> int
     \<Rightarrow> error + 'p dataset_obj data_loader" where
  "get_loader_genome VisualGenome transform mode batch_size start_word end_word unk_word
       num_workers genome_loc vocab_glove_file pad_caption pad_limit =
     (case VisualGenome
             (genome_kwargs transform mode batch_size start_word end_word unk_word genome_loc
                vocab_glove_file pad_caption pad_limit) of
        Inl e \<Rightarrow> Inl e
      | Inr ds \<Rightarrow> make_loader ds num_workers)"

section \<open>genome\_processor: GenomeViz.loc\_eval\<close>

text \<open>
  \<^verbatim>\<open>statistics.mean\<close> on a list of integers: the exact quotient of the sum by the
  length, \<open>StatisticsError\<close> on the empty list.
\<close>

definition mean :: "int list \<Rightarrow> error + real" where
  "mean xs =
     (if xs = [] then Inl StatisticsError
      else Inr (real_of_int (sum_list xs) / real (length xs)))"

text \<open>
  What \<^verbatim>\<open>loc_eval\<close> reads of \<open>self\<close>: \<^verbatim>\<open>parse_mode\<close> and \<^verbatim>\<open>dataset\<close>, an attribute
  that \<^verbatim>\<open>__init__\<close> sets in evaluation mode only (\<open>None\<close>: not set). The dataset maps
  an index to an image tensor, a caption tensor and a caption identifier, or raises.
\<close>

record ('t, 'k) GenomeViz =
  parse_mode :: string
  dataset :: "(int \<Rightarrow> error + ('t \<times> 't \<times> 'k)) option"

text \<open>
  The helpers of \<^verbatim>\<open>genome_utils\<close> are not among the modelled files: they are
  parameters, applied already to the fields of \<open>self\<close> that the source passes with each
  call (the two models, \<^verbatim>\<open>image_data\<close>, \<^verbatim>\<open>annotations_data\<close>). With them come the
  tensor method \<^verbatim>\<open>unsqueeze(0)\<close> and the conversion \<^verbatim>\<open>int(...)\<close> of the score.
\<close>

record ('t, 'k, 'm, 'r, 'e, 's) genome_utils =
  unsqueeze0 :: "'t \<Rightarrow> 't"
  gen_coloc_maps_matchmap :: "'t \<Rightarrow> 't \<Rightarrow> error + 'm"
  gen_coloc_maps_phrase :: "'t \<Rightarrow> 't \<Rightarrow> error + 'm"
  fetch_data_genome :: "int \<Rightarrow> 'm \<Rightarrow> 't \<Rightarrow> 'k \<Rightarrow> error + 'r"
  genome_element_processor :: "'r \<Rightarrow> error + 'e"
  hit_score_genome :: "'e \<Rightarrow> error + 's"
  py_int :: "'s \<Rightarrow> error + int"

text \<open>The body of the loop up to \<^verbatim>\<open>score = int(hit_score_genome(element))\<close>.\<close>

definition score_example ::
  "('t, 'k, 'm, 'r, 'e, 's) genome_utils \<Rightarrow> ('t, 'k) GenomeViz \<Rightarrow> int \<Rightarrow> error + int" where
  "score_example u self index =
     (case dataset self of
        None \<Rightarrow> Inl AttributeError
      | Some ds \<Rightarrow>
          (case ds index of
             Inl e \<Rightarrow> Inl e
           | Inr (image_tensor0, caption_glove0, cap_id) \<Rightarrow>
               (let image_tensor = unsqueeze0 u image_tensor0;
                    caption_glove = unsqueeze0 u caption_glove0
                in case (if parse_mode self = ''matchmap''
                         then gen_coloc_maps_matchmap u image_tensor caption_glove
                         else gen_coloc_maps_phrase u image_tensor caption_glove) of
                     Inl e \<Rightarrow> Inl e
                   | Inr cmap \<Rightarrow>
                       (case fetch_data_genome u 0 cmap image_tensor cap_id of
                          Inl e \<Rightarrow> Inl e
                        | Inr raw_element \<Rightarrow>
                            (case genome_element_processor u raw_element of
                               Inl e \<Rightarrow> Inl e
                             | Inr el \<Rightarrow>
                                 (case hit_score_genome u el of
                                    Inl e \<Rightarrow> Inl e
                                  | Inr s \<Rightarrow> py_int u s))))))"

text \<open>
  The loop of \<^verbatim>\<open>loc_eval\<close>, with its state: the score list and the lines printed so
  far. A line is printed when \<^verbatim>\<open>index % 100\<close> is zero: the index, the score and the
  running mean. An exception leaves the loop with the lines printed before it; the score
  list is lost with the frame.
\<close>

type_synonym progress_line = "int \<times> int \<times> real"

fun loc_eval_loop ::
  "('t, 'k, 'm, 'r, 'e, 's) genome_utils \<Rightarrow> ('t, 'k) GenomeViz \<Rightarrow> int list \<Rightarrow> int list
     \<Rightarrow> progress_line list \<Rightarrow> progress_line list \<times> (error + int list)" where
  "loc_eval_loop u self [] score_list printed = (printed, Inr score_list)"
| "loc_eval_loop u self (index # rest) score_list printed =
     (case score_example u self index of
        Inl e \<Rightarrow> (printed, Inl e)
      | Inr score \<Rightarrow>
          (let score_list' = score_list @ [score]
           in if index mod 100 = 0 then
                (case mean score_list' of
                   Inl e \<Rightarrow> (printed, Inl e)
                 | Inr m \<Rightarrow>
                     loc_eval_loop u self rest score_list' (printed @ [(index, score, m)]))
              else loc_eval_loop u self rest score_list' printed))"

text \<open>
  \<^verbatim>\<open>loc_eval\<close>: the printed lines, and the returned pair
  \<^verbatim>\<open>(score_list, mean(score_list))\<close> or the exception. The progress bar that
  \<^verbatim>\<open>tqdm\<close> draws around the loop is not part of the model.
\<close>

definition loc_eval ::
  "('t, 'k, 'm, 'r, 'e, 's) genome_utils \<Rightarrow> ('t, 'k) GenomeViz \<Rightarrow> int
     \<Rightarrow> progress_line list \<times> (error + (int list \<times> real))" where
  "loc_eval u self last_n =
     (case loc_eval_loop u self (np_arange last_n) [] [] of
        (printed, Inl e) \<Rightarrow> (printed, Inl e)
      | (printed, Inr score_list) \<Rightarrow>
          (case mean score_list of
             Inl e \<Rightarrow> (printed, Inl e)
           | Inr m \<Rightarrow> (printed, Inr (score_list, m))))"

section \<open>Predicates of the statements\<close>


text \<open>
  A phrase group fits a caption and its frames when every position is an index of both
  lists, counted from the front, and the frames at its positions have one shape.
\<close>

definition positions_ok :: "nat \<Rightarrow> int list \<Rightarrow> bool" where
  "positions_ok n position = list_all (\<lambda>i. 0 \<le> i \<and> i < int n) position"

definition same_shape :: "matrix list \<Rightarrow> bool" where
  "same_shape frames =
     (case frames of [] \<Rightarrow> True | f # fs \<Rightarrow> list_all (\<lambda>g. frame_shape g = frame_shape f) fs)"

definition group_ok :: "'t list \<Rightarrow> matrix list \<Rightarrow> int list \<Rightarrow> bool" where
  "group_ok tok_caption coloc_maps position \<longleftrightarrow>
     positions_ok (length tok_caption) position \<and> positions_ok (length coloc_maps) position \<and>
     same_shape (map (\<lambda>i. coloc_maps ! nat i) position)"

text \<open>
  A run of \<^verbatim>\<open>loc_eval\<close> over a list of indices, seen from outside the loop: the scores
  appended before the first exception (\<open>scored_prefix\<close>, whose length is the number of
  examples scored), that exception if there is one (\<open>first_failure\<close>), and the lines
  that the \<^verbatim>\<open>print\<close> statement writes for given indices and scores, after the scores
  \<open>acc\<close>.
\<close>

fun scored_prefix ::
  "('t, 'k, 'm, 'r, 'e, 's) genome_utils \<Rightarrow> ('t, 'k) GenomeViz \<Rightarrow> int list \<Rightarrow> int list" where
  "scored_prefix u self [] = []"
| "scored_prefix u self (index # rest) =
     (case score_example u self index of
        Inl e \<Rightarrow> []
      | Inr score \<Rightarrow> score # scored_prefix u self rest)"

fun first_failure ::
  "('t, 'k, 'm, 'r, 'e, 's) genome_utils \<Rightarrow> ('t, 'k) GenomeViz \<Rightarrow> int list \<Rightarrow> error option" where
  "first_failure u self [] = None"
| "first_failure u self (index # rest) =
     (case score_example u self index of
        Inl e \<Rightarrow> Some e
      | Inr score \<Rightarrow> first_failure u self rest)"

fun progress_lines :: "int list \<Rightarrow> int list \<Rightarrow> int list \<Rightarrow> progress_line list" where
  "progress_lines (index # rest) (score # scores) acc =
     (if index mod 100 = 0
      then [(index, score,
             real_of_int (sum_list (acc @ [score])) / real (length (acc @ [score])))]
      else [])
     @ progress_lines rest scores (acc @ [score])"
| "progress_lines indices scores acc = []"

text \<open>
  Inputs for the evaluations below: helpers that always succeed and score an example by
  its caption identifier, and an evaluation-mode object whose dataset holds examples of
  score 1 and raises \<open>KeyError\<close> at one index.
\<close>

definition plain_utils :: "(nat, int, nat \<times> nat, int, int, int) genome_utils" where
  "plain_utils =
     \<lparr>unsqueeze0 = \<lambda>t. t, gen_coloc_maps_matchmap = \<lambda>i c. Inr (i, c),
      gen_coloc_maps_phrase = \<lambda>i c. Inr (i, c), fetch_data_genome = \<lambda>idx m t k. Inr k,
      genome_element_processor = Inr, hit_score_genome = Inr, py_int = Inr\<rparr>"

definition viz_failing_at :: "int \<Rightarrow> (nat, int) GenomeViz" where
  "viz_failing_at k =
     \<lparr>parse_mode = ''matchmap'',
      dataset = Some (\<lambda>i. if i = k then Inl KeyError else Inr (0, 0, 1))\<rparr>"

section \<open>Proofs\<close>

subsection \<open>gen\_coloc\_maps\<close>

text \<open>
  C1. \<^verbatim>\<open>gen_coloc_maps\<close> is meant to return one co-localization map per example of
  the batch. It reads the batch size from the model object, not from a tensor: with an
  image model that has no attribute \<^verbatim>\<open>size\<close> (every \<^verbatim>\<open>torch.nn.Module\<close>) the call
  raises \<open>AttributeError\<close> after both encoders have run, for every batch, and returns
  no list.
\<close>

theorem gen_coloc_maps_attribute_error:
  "gen_coloc_maps matchmap_generate
     \<lparr>forward = \<lambda>x. Inr (image_encoder x), size_attr = None\<rparr>
     \<lparr>forward = \<lambda>w. Inr (caption_encoder w), size_attr = s\<rparr>
     image_tensor caption_glove
   = Inl AttributeError"
  by (simp add: gen_coloc_maps_def)

text \<open>
  Even for an object that has a \<^verbatim>\<open>size\<close> method, the number of maps is what that
  method answers, not the batch dimension of the inputs: here a batch of two examples
  gives one map.
\<close>

lemma gen_coloc_maps_count_from_model:
  "gen_coloc_maps (\<lambda>im cp. Inr (im + cp))
     \<lparr>forward = \<lambda>x. Inr x, size_attr = Some (\<lambda>d. Inr 1)\<rparr>
     \<lparr>forward = \<lambda>w. Inr w, size_attr = None\<rparr>
     [10, 20 :: nat] [1, 2 :: nat]
   = Inr [11]"
  by (simp add: gen_coloc_maps_def np_arange_def getitem_def)

subsection \<open>Clipping a caption with both sentinels\<close>



subsection \<open>Clipping a caption without the end sentinel\<close>






text \<open>
  \<^verbatim>\<open>flickr_element_processor\<close> evaluated on a map of three frames whose annotation has
  two tokens and no slot for an end sentinel: in token mode the two remaining frames are
  averaged into one phrase, in phrase mode they pass through.
\<close>

lemma flickr_element_processor_example:
  "flickr_element_processor (\<lambda>m. Inr m) (\<lambda>i. Inr i)
     \<lparr>coloc_map = [[[9]], [[1]], [[3]]], image = (0 :: nat), caption = (7 :: nat), name = ''0''\<rparr>
     ''token''
     [7 \<mapsto> \<lparr>caption_index = [[0, 1]], parsed_caption = [[''a'', ''dog'']],
                 tok_sent = [''a'', ''dog'']\<rparr>]
   = Inr \<lparr>coloc_map = [Grid [[2]]], image = 0, caption = [[''a'', ''dog'']], name = ''0''\<rparr>
   \<and> flickr_element_processor (\<lambda>m. Inr m) (\<lambda>i. Inr i)
     \<lparr>coloc_map = [[[9]], [[1]]], image = (0 :: nat), caption = (7 :: nat), name = ''0''\<rparr>
     ''phrase''
     [7 \<mapsto> \<lparr>caption_index = [[0, 1]], parsed_caption = [[''a'', ''dog'']],
                 tok_sent = [''a'', ''dog'']\<rparr>]
   = Inr \<lparr>coloc_map = [Grid [[1]]], image = 0, caption = [[''a'', ''dog'']], name = ''0''\<rparr>"
  by (simp add: flickr_element_processor_def flickr_clip_def del_first_def del_from_def
      getitem_def np_mean_axis0_def frame_shape_def add_frames_def coloc_map_processor_def
      np_stack_def)

subsection \<open>seg\_viz\<close>

text \<open>
  The binarization expression taken alone: a cell below \<open>thresh\<close> times the mean of the
  mask becomes 0, a cell at or above it becomes 1.
\<close>

lemma binarize_cell:
  assumes "r < length m" and "c < length (m ! r)"
  shows "binarize thresh m ! r ! c = (if m ! r ! c < thresh * np_mean m then 0 else 1)"
  using assms by (simp add: binarize_def)

lemma binarize_shape: "map length (binarize thresh m) = map length m"
  by (simp add: binarize_def)

text \<open>
  C7. \<^verbatim>\<open>seg_viz\<close> is written to binarize each resized mask against \<open>thresh\<close> times its
  mean, but its loop header adds 1 to a \<^verbatim>\<open>range\<close>: every call raises \<open>TypeError\<close>
  before the first mask is read, and no cell is ever set.
\<close>

theorem seg_viz_type_error:
  "seg_viz cv2_resize apply_mask mask_list cap color_img thresh = Inl TypeError"
  by (simp add: seg_viz_def range_plus_int_def)

subsection \<open>caption\_parser\<close>

lemma getitem_in_range: "0 \<le> i \<Longrightarrow> i < int (length xs) \<Longrightarrow> getitem xs i = Inr (xs ! nat i)"
  by (simp add: getitem_def)

lemma collect_phrase_in_range:
  "positions_ok (length tok) position \<Longrightarrow> positions_ok (length cm) position \<Longrightarrow>
   collect_phrase tok cm position = Inr (map (\<lambda>i. tok ! nat i) position, map (\<lambda>i. cm ! nat i) position)"
  by (induction position) (simp_all add: positions_ok_def getitem_in_range)






lemma caption_parser_lengths_Inr:
  "caption_parser tok cm index_list = Inr (pc, pm) \<Longrightarrow>
   length pc = length index_list \<and> length pm = length index_list"
  by (induction index_list arbitrary: pc pm) (auto split: sum.splits prod.splits)

lemma caption_parser_returns:
  "list_all (group_ok tok cm) index_list \<Longrightarrow> \<exists>pc pm. caption_parser tok cm index_list = Inr (pc, pm)"
proof (induction index_list)
  case Nil then show ?case by simp
next
  case (Cons g gs)
  from Cons.prems have g: "group_ok tok cm g" and gs: "list_all (group_ok tok cm) gs" by simp_all
  from g have col: "collect_phrase tok cm g = Inr (map (\<lambda>i. tok ! nat i) g, map (\<lambda>i. cm ! nat i) g)"
    by (simp add: group_ok_def collect_phrase_in_range)
  from g have "same_shape (map (\<lambda>i. cm ! nat i) g)" by (simp add: group_ok_def)
  then have "\<exists>m. np_mean_axis0 (map (\<lambda>i. cm ! nat i) g) = Inr m"
    by (auto simp: np_mean_axis0_def same_shape_def split: list.splits)
  then obtain m where m: "np_mean_axis0 (map (\<lambda>i. cm ! nat i) g) = Inr m" ..
  from Cons.IH [OF gs] obtain pc pm where "caption_parser tok cm gs = Inr (pc, pm)" by blast
  with col m show ?case by simp
qed



text \<open>
  C6. For every list of phrase groups that fit the caption and its frames (groups may
  overlap, repeat positions or be empty), \<^verbatim>\<open>caption_parser\<close> returns one phrase
  caption and one phrase map per group: both lists have the length of the list of groups.
\<close>

theorem caption_parser_one_per_group:
  assumes "list_all (group_ok tok cm) index_list"
  shows "\<exists>pc pm. caption_parser tok cm index_list = Inr (pc, pm)
           \<and> length pc = length index_list \<and> length pm = length index_list"
proof -
  from caption_parser_returns [OF assms] obtain pc pm
    where r: "caption_parser tok cm index_list = Inr (pc, pm)" by blast
  from caption_parser_lengths_Inr [OF r] r show ?thesis by blast
qed

theorem caption_parser_one_per_group_witness:
  "list_all (group_ok [''a'', ''dog'', ''runs''] [[[1, 2]], [[3, 4]], [[5, 6]]]) [[0, 1], [1, 2], []]
   \<and> (\<exists>pc pm. caption_parser [''a'', ''dog'', ''runs''] [[[1, 2]], [[3, 4]], [[5, 6]]] [[0, 1], [1, 2], []]
               = Inr (pc, pm)
        \<and> length pc = length [[0, 1], [1, 2], [] :: int list]
        \<and> length pm = length [[0, 1], [1, 2], [] :: int list])"
proof -
  have h: "list_all (group_ok [''a'', ''dog'', ''runs''] [[[1, 2]], [[3, 4]], [[5, 6]]]) [[0, 1], [1, 2], []]"
    by (simp add: group_ok_def positions_ok_def same_shape_def frame_shape_def)
  from caption_parser_one_per_group [OF h] h show ?thesis by blast
qed

text \<open>
  An evaluation: two overlapping groups and an empty one. The empty group gets the scalar
  \<open>NaN\<close>; a position outside the caption raises \<open>IndexError\<close>.
\<close>

lemma caption_parser_example:
  "caption_parser [''a'', ''dog'', ''runs''] [[[1, 2]], [[3, 4]], [[5, 6]]] [[0, 1], [1, 2], []]
   = Inr ([[''a'', ''dog''], [''dog'', ''runs''], []], [Grid [[2, 3]], Grid [[4, 5]], NaN])"
  by (simp add: getitem_def np_mean_axis0_def frame_shape_def add_frames_def)

lemma caption_parser_out_of_range:
  "caption_parser [''a'', ''dog'', ''runs''] [[[1, 2]], [[3, 4]], [[5, 6]]] [[0, 3]]
   = Inl IndexError"
  by (simp add: getitem_def)

subsection \<open>get\_loader\<close>

lemma make_loader_keeps_last: "make_loader ds num_workers = Inr dl \<Longrightarrow> \<not> drops_last dl"
  by (auto simp: make_loader_def drops_last_def split: if_splits sum.splits)

lemma make_loader_bucketed:
  "ds_pad_caption ds \<Longrightarrow> make_loader ds num_workers = Inr dl \<Longrightarrow>
   \<exists>bs. dl_batch_sampler dl = Some bs \<and> \<not> bs_drop_last bs"
  by (auto simp: make_loader_def split: sum.splits)

text \<open>
  C9. Whenever \<^verbatim>\<open>get_loader_coco\<close>, \<^verbatim>\<open>get_loader_flickr\<close> or \<^verbatim>\<open>get_loader_genome\<close>
  returns a loader, its batching does not drop a short final batch: on the bucketed path
  the batch sampler is built with \<^verbatim>\<open>drop_last=False\<close>, on the other path
  \<^verbatim>\<open>drop_last\<close> is left at its default.
\<close>

theorem loaders_keep_short_final_batch:
  "(get_loader_coco COCODataset transform mode batch_size start_word end_word unk_word
        num_workers cocoapi_loc vocab_glove_file test_size pad_caption = Inr dla
      \<longrightarrow> \<not> drops_last dla
          \<and> (ds_pad_caption (dl_dataset dla)
               \<longrightarrow> (\<exists>bs. dl_batch_sampler dla = Some bs \<and> \<not> bs_drop_last bs)))
   \<and> (get_loader_flickr FlickrDataset transform mode batch_size start_word end_word unk_word
        num_workers flickr_loc vocab_glove_file pad_caption pad_limit pmode = Inr dlb
      \<longrightarrow> \<not> drops_last dlb
          \<and> (ds_pad_caption (dl_dataset dlb)
               \<longrightarrow> (\<exists>bs. dl_batch_sampler dlb = Some bs \<and> \<not> bs_drop_last bs)))
   \<and> (get_loader_genome VisualGenome transform mode batch_size start_word end_word unk_word
        num_workers genome_loc vocab_glove_file pad_caption pad_limit = Inr dlc
      \<longrightarrow> \<not> drops_last dlc
          \<and> (ds_pad_caption (dl_dataset dlc)
               \<longrightarrow> (\<exists>bs. dl_batch_sampler dlc = Some bs \<and> \<not> bs_drop_last bs)))"
proof -
  have key: "\<not> drops_last dl
      \<and> (ds_pad_caption (dl_dataset dl) \<longrightarrow> (\<exists>bs. dl_batch_sampler dl = Some bs \<and> \<not> bs_drop_last bs))"
    if "make_loader ds nw = Inr dl" for ds :: "'x dataset_obj" and nw dl
  proof -
    from that have "dl_dataset dl = ds"
      by (auto simp: make_loader_def split: if_splits sum.splits)
    with that show ?thesis
      using make_loader_keeps_last [OF that] make_loader_bucketed [of ds nw dl] by simp
  qed
  show ?thesis
  proof (intro conjI)
    show "get_loader_coco COCODataset transform mode batch_size start_word end_word unk_word
        num_workers cocoapi_loc vocab_glove_file test_size pad_caption = Inr dla
      \<longrightarrow> \<not> drops_last dla
          \<and> (ds_pad_caption (dl_dataset dla)
               \<longrightarrow> (\<exists>bs. dl_batch_sampler dla = Some bs \<and> \<not> bs_drop_last bs))"
      unfolding get_loader_coco_def
      by (auto split: if_splits sum.splits dest!: key)
    show "get_loader_flickr FlickrDataset transform mode batch_size start_word end_word unk_word
        num_workers flickr_loc vocab_glove_file pad_caption pad_limit pmode = Inr dlb
      \<longrightarrow> \<not> drops_last dlb
          \<and> (ds_pad_caption (dl_dataset dlb)
               \<longrightarrow> (\<exists>bs. dl_batch_sampler dlb = Some bs \<and> \<not> bs_drop_last bs))"
      unfolding get_loader_flickr_def Let_def
      by (auto split: if_splits sum.splits dest!: key)
    show "get_loader_genome VisualGenome transform mode batch_size start_word end_word unk_word
        num_workers genome_loc vocab_glove_file pad_caption pad_limit = Inr dlc
      \<longrightarrow> \<not> drops_last dlc
          \<and> (ds_pad_caption (dl_dataset dlc)
               \<longrightarrow> (\<exists>bs. dl_batch_sampler dlc = Some bs \<and> \<not> bs_drop_last bs))"
      unfolding get_loader_genome_def
      by (auto split: if_splits sum.splits dest!: key)
  qed
qed

theorem loaders_keep_short_final_batch_witness:
  "(\<exists>dl. get_loader_coco
             (\<lambda>kw. Inr \<lparr>ds_pad_caption = kw_pad_caption kw, ds_batch_size = kw_batch_size kw,
                         ds_get_indices = Inr [0, 1, 2], ds_contents = ()\<rparr>)
             () ''train'' 8 ''<start>'' ''<end>'' ''<unk>'' 4 [] ''vocab_glove.json''
             1000 True = Inr dl
          \<and> ds_pad_caption (dl_dataset dl) \<and> \<not> drops_last dl
          \<and> (\<exists>bs. dl_batch_sampler dl = Some bs \<and> \<not> bs_drop_last bs))
   \<and> (\<exists>dl. get_loader_flickr
             (\<lambda>kw. Inr \<lparr>ds_pad_caption = fk_pad_caption kw, ds_batch_size = fk_batch_size kw,
                         ds_get_indices = Inr [0, 1, 2], ds_contents = ()\<rparr>)
             () ''train'' 8 ''<start>'' ''<end>'' ''<unk>'' 4 []
             ''vocab_glove.json'' True 20 ''phrase'' = Inr dl
          \<and> ds_pad_caption (dl_dataset dl) \<and> \<not> drops_last dl
          \<and> (\<exists>bs. dl_batch_sampler dl = Some bs \<and> \<not> bs_drop_last bs))
   \<and> (\<exists>dl. get_loader_genome
             (\<lambda>kw. Inr \<lparr>ds_pad_caption = kw_pad_caption kw, ds_batch_size = kw_batch_size kw,
                         ds_get_indices = Inr [0, 1, 2], ds_contents = ()\<rparr>)
             () ''train'' 8 ''<start>'' ''<end>'' ''<unk>'' 4 []
             ''vocab_glove.json'' True 20 = Inr dl
          \<and> ds_pad_caption (dl_dataset dl) \<and> \<not> drops_last dl
          \<and> (\<exists>bs. dl_batch_sampler dl = Some bs \<and> \<not> bs_drop_last bs))"
proof -
  let ?C = "\<lambda>kw. Inr \<lparr>ds_pad_caption = kw_pad_caption kw, ds_batch_size = kw_batch_size kw,
                         ds_get_indices = Inr [0, 1, 2], ds_contents = ()\<rparr>"
  let ?F = "\<lambda>kw. Inr \<lparr>ds_pad_caption = fk_pad_caption kw, ds_batch_size = fk_batch_size kw,
                         ds_get_indices = Inr [0, 1, 2], ds_contents = ()\<rparr>"
  have "\<exists>dl. get_loader_coco ?C () ''train'' 8 ''<start>'' ''<end>'' ''<unk>'' 4 []
             ''vocab_glove.json'' 1000 True = Inr dl \<and> ds_pad_caption (dl_dataset dl)"
    by (simp add: get_loader_coco_def valid_mode_def make_loader_def)
  then obtain dl1 where c: "get_loader_coco ?C () ''train'' 8 ''<start>'' ''<end>'' ''<unk>'' 4 []
             ''vocab_glove.json'' 1000 True = Inr dl1"
    and c': "ds_pad_caption (dl_dataset dl1)" by blast
  have "\<exists>dl. get_loader_flickr ?F () ''train'' 8 ''<start>'' ''<end>'' ''<unk>'' 4 []
             ''vocab_glove.json'' True 20 ''phrase'' = Inr dl
           \<and> ds_pad_caption (dl_dataset dl)"
    by (simp add: get_loader_flickr_def valid_mode_def make_loader_def)
  then obtain dl2 where f: "get_loader_flickr ?F () ''train'' 8 ''<start>'' ''<end>'' ''<unk>'' 4 []
             ''vocab_glove.json'' True 20 ''phrase'' = Inr dl2"
    and f': "ds_pad_caption (dl_dataset dl2)" by blast
  have "\<exists>dl. get_loader_genome ?C () ''train'' 8 ''<start>'' ''<end>'' ''<unk>'' 4 []
             ''vocab_glove.json'' True 20 = Inr dl
           \<and> ds_pad_caption (dl_dataset dl)"
    by (simp add: get_loader_genome_def genome_kwargs_def make_loader_def)
  then obtain dl3 where g: "get_loader_genome ?C () ''train'' 8 ''<start>'' ''<end>'' ''<unk>'' 4 []
             ''vocab_glove.json'' True 20 = Inr dl3"
    and g': "ds_pad_caption (dl_dataset dl3)" by blast
  from loaders_keep_short_final_batch
    [where COCODataset = ?C and FlickrDataset = ?F and VisualGenome = ?C
       and transform = "()" and mode = "''train''" and batch_size = 8
       and start_word = "''<start>''" and end_word = "''<end>''" and unk_word = "''<unk>''"
       and num_workers = 4 and cocoapi_loc = "[]" and flickr_loc = "[]" and genome_loc = "[]"
       and vocab_glove_file = "''vocab_glove.json''"
       and pad_caption = True and pad_limit = 20 and test_size = 1000 and pmode = "''phrase''"
       and dla = dl1 and dlb = dl2 and dlc = dl3]
  show ?thesis
    using c c' f f' g g' by blast
qed


text \<open>Two calls that differ in both arguments, evaluated: the same keyword arguments.\<close>

lemma genome_kwargs_example:
  "genome_kwargs () ''val'' 8 ''<start>'' ''<end>'' ''<unk>'' ''/srv/locnet'' ''other.json'' True 20
   = \<lparr>kw_transform = (), kw_mode = ''train'', kw_batch_size = 8,
      kw_annotations_file = ''/srv/locnet/data/visual_genome/coco_phrase_data.json'',
      kw_vocab_glove_file = ''/srv/locnet/data/visual_genome/vocab_glove.json'',
      kw_img_folder = ''/srv/locnet/data/visual_genome/images'',
      kw_start_word = ''<start>'', kw_end_word = ''<end>'', kw_unk_word = ''<unk>'',
      kw_pad_caption = True, kw_pad_limit = 20\<rparr>"
  by (simp add: genome_kwargs_def os_path_join_def join2_def)

subsection \<open>GenomeViz.loc\_eval\<close>

text \<open>
  C4, as stated, fails: with \<^verbatim>\<open>last = 0\<close> the loop body never runs and
  \<^verbatim>\<open>mean(score_list)\<close> is taken of the empty list. On a dataset whose first five examples
  score 1, the call raises \<open>StatisticsError\<close> and returns no score list.
\<close>

theorem loc_eval_empty_run_raises:
  "loc_eval plain_utils (viz_failing_at 5) 0
     = ([], Inl StatisticsError)"
  by (simp add: loc_eval_def np_arange_def mean_def)

text \<open>
  C4, amended. \<^verbatim>\<open>loc_eval\<close> called with \<^verbatim>\<open>last = 0\<close> prints nothing and raises
  \<open>StatisticsError\<close>, the error of \<^verbatim>\<open>statistics.mean\<close> on the empty score list: it
  returns neither a score list nor a mean.
\<close>

theorem loc_eval_zero:
  "loc_eval u self 0 = ([], Inl StatisticsError)"
  by (simp add: loc_eval_def np_arange_def mean_def)

lemma loc_eval_loop_run:
  "loc_eval_loop u self indices acc printed
   = (printed @ progress_lines indices (scored_prefix u self indices) acc,
      case first_failure u self indices of
        Some e \<Rightarrow> Inl e
      | None \<Rightarrow> Inr (acc @ scored_prefix u self indices))"
proof (induction indices arbitrary: acc printed)
  case Nil
  show ?case by simp
next
  case (Cons index rest)
  show ?case
  proof (cases "score_example u self index")
    case (Inl e)
    then show ?thesis by simp
  next
    case (Inr score)
    have m: "mean (acc @ [score])
        = Inr (real_of_int (sum_list (acc @ [score])) / real (length (acc @ [score])))"
      by (simp add: mean_def)
    show ?thesis
    proof (cases "index mod 100 = 0")
      case True
      with Inr m Cons.IH [of "acc @ [score]"] show ?thesis
        by (simp add: Let_def split: option.splits)
    next
      case False
      with Inr Cons.IH [of "acc @ [score]"] show ?thesis
        by (simp add: Let_def split: option.splits)
    qed
  qed
qed




text \<open>
  A run that nothing aborts returns the scores and their mean.
\<close>

lemma loc_eval_complete:
  assumes "first_failure u self (np_arange last_n) = None" and "0 < last_n"
  shows "loc_eval u self last_n
         = (progress_lines (np_arange last_n) (scored_prefix u self (np_arange last_n)) [],
            Inr (scored_prefix u self (np_arange last_n),
                 real_of_int (sum_list (scored_prefix u self (np_arange last_n)))
                 / real (length (scored_prefix u self (np_arange last_n)))))"
proof -
  have len: "length (scored_prefix u self indices) = length indices"
    if "first_failure u self indices = None" for indices
    using that by (induction indices) (auto split: sum.splits)
  from assms(2) have "np_arange last_n \<noteq> []" by (simp add: np_arange_def)
  with len [OF assms(1)] have "scored_prefix u self (np_arange last_n) \<noteq> []" by auto
  with assms(1) show ?thesis by (simp add: loc_eval_def loc_eval_loop_run mean_def)
qed

end
